theory Spec2Isabelle
  imports Complex_Main
begin

section \<open>JavaScript strings\<close>

text \<open>
  A JavaScript string is a sequence of code units; it is modelled as a \<^typ>\<open>string\<close>, one
  \<^typ>\<open>char\<close> per code unit, which covers every code unit below 256. URLs, header names,
  header values and environment settings of the proxy are of that kind. A sequence of
  bytes is a \<^typ>\<open>string\<close> too, one \<^typ>\<open>char\<close> per byte.
\<close>

definition startsWith :: "string \<Rightarrow> string \<Rightarrow> bool" where
  \<comment> \<open>\<^verbatim>\<open>s.startsWith(p)\<close>\<close>
  "startsWith s p \<longleftrightarrow> take (length p) s = p"

primrec includesStr :: "string \<Rightarrow> string \<Rightarrow> bool" where
  \<comment> \<open>\<^verbatim>\<open>s.includes(sub)\<close>: \<open>sub\<close> occurs at some position of \<open>s\<close>\<close>
  "includesStr [] sub \<longleftrightarrow> sub = []"
| "includesStr (c # cs) sub \<longleftrightarrow> startsWith (c # cs) sub \<or> includesStr cs sub"

definition slice :: "string \<Rightarrow> nat \<Rightarrow> string" where
  \<comment> \<open>\<^verbatim>\<open>s.slice(n)\<close> for a non-negative \<open>n\<close>; past the end it is the empty string\<close>
  "slice s n = drop n s"

definition slice2 :: "string \<Rightarrow> nat \<Rightarrow> nat \<Rightarrow> string" where
  \<comment> \<open>\<^verbatim>\<open>s.slice(a, b)\<close> for non-negative \<open>a \<le> b\<close>\<close>
  "slice2 s a b = take (b - a) (drop a s)"

definition stripTrailingSlash :: "string \<Rightarrow> string" where
  \<comment> \<open>\<^verbatim>\<open>s.replace(/\/$/, '')\<close>: the pattern matches one slash at the very end\<close>
  "stripTrailingSlash s = (if s \<noteq> [] \<and> last s = CHR ''/'' then butlast s else s)"

definition isWhiteSpace :: "char \<Rightarrow> bool" where
  \<comment> \<open>the white space and line terminators of ECMAScript below 256:
      TAB, LF, VT, FF, CR, SP and NBSP\<close>
  "isWhiteSpace c \<longleftrightarrow>
     c \<in> set [CHR 0x09, CHR 0x0A, CHR 0x0B, CHR 0x0C, CHR 0x0D, CHR 0x20, CHR 0xA0]"

definition trim :: "string \<Rightarrow> string" where
  \<comment> \<open>\<^verbatim>\<open>s.trim()\<close>\<close>
  "trim s = rev (dropWhile isWhiteSpace (rev (dropWhile isWhiteSpace s)))"

definition upperTable :: "(char \<times> char) list" where
  "upperTable = zip ''abcdefghijklmnopqrstuvwxyz'' ''ABCDEFGHIJKLMNOPQRSTUVWXYZ''"

definition toUpperCase :: "string \<Rightarrow> string" where
  \<comment> \<open>\<^verbatim>\<open>s.toUpperCase()\<close> on ASCII text, which the identifiers of the registry are\<close>
  "toUpperCase s = map (\<lambda>c. case map_of upperTable c of Some u \<Rightarrow> u | None \<Rightarrow> c) s"

definition truthy :: "string option \<Rightarrow> bool" where
  \<comment> \<open>truthiness of a property that is a string when present: \<open>undefined\<close> and the
      empty string are falsy\<close>
  "truthy v \<longleftrightarrow> (case v of None \<Rightarrow> False | Some s \<Rightarrow> s \<noteq> [])"

definition orElse :: "string option \<Rightarrow> string \<Rightarrow> string" where
  \<comment> \<open>\<^verbatim>\<open>v || d\<close> for a string-or-undefined \<open>v\<close> and a string \<open>d\<close>\<close>
  "orElse v d = (case v of None \<Rightarrow> d | Some s \<Rightarrow> if s = [] then d else s)"

definition digitChar :: "nat \<Rightarrow> char" where
  "digitChar n = (''0123456789'') ! n"

fun showNat :: "nat \<Rightarrow> string" where
  \<comment> \<open>decimal numeral of a natural number, as \<^verbatim>\<open>String(n)\<close> prints it\<close>
  "showNat n =
     (if n < 10 then [digitChar n]
      else showNat (n div 10) @ [digitChar (n mod 10)])"

declare showNat.simps [simp del]

section \<open>JSON values\<close>

text \<open>
  The values that \<^verbatim>\<open>JSON.parse\<close> produces and \<^verbatim>\<open>res.json\<close> sends. A number is the real
  number that the double stands for. A string is \<open>JStr\<close> of its code units when they are
  all below 256, and \<open>JWStr\<close> of its code units as natural numbers otherwise. An object is
  the list of its own properties in enumeration order, with distinct keys: \<open>JObj\<close> when
  every key has its code units below 256, \<open>JWObj\<close> with the keys as lists of code units
  otherwise.
\<close>

type_synonym units = "nat list"

datatype json =
    JNull
  | JBool bool
  | JNum real
  | JStr string
  | JWStr units
  | JArr "json list"
  | JObj "(string \<times> json) list"
  | JWObj "(units \<times> json) list"

definition jsTruthy :: "json \<Rightarrow> bool" where
  \<comment> \<open>\<^verbatim>\<open>!!v\<close>\<close>
  "jsTruthy v =
     (case v of JNull \<Rightarrow> False | JBool b \<Rightarrow> b | JNum n \<Rightarrow> n \<noteq> 0
      | JStr s \<Rightarrow> s \<noteq> [] | JWStr u \<Rightarrow> u \<noteq> []
      | JArr _ \<Rightarrow> True | JObj _ \<Rightarrow> True | JWObj _ \<Rightarrow> True)"

definition isObject :: "json \<Rightarrow> bool" where
  \<comment> \<open>\<^verbatim>\<open>typeof v === 'object'\<close>: objects, arrays and \<open>null\<close>\<close>
  "isObject v =
     (case v of JNull \<Rightarrow> True | JArr _ \<Rightarrow> True | JObj _ \<Rightarrow> True | JWObj _ \<Rightarrow> True
      | _ \<Rightarrow> False)"

definition getProp :: "json \<Rightarrow> string \<Rightarrow> json option" where
  \<comment> \<open>\<^verbatim>\<open>v.name\<close> for a property name that is neither an array index nor a member of a
      prototype: \<open>None\<close> is \<open>undefined\<close>\<close>
  "getProp v k =
     (case v of JObj kvs \<Rightarrow> map_of kvs k
      | JWObj kvs \<Rightarrow> map_of kvs (map of_char k)
      | _ \<Rightarrow> None)"

definition propTruthy :: "json \<Rightarrow> string \<Rightarrow> bool" where
  "propTruthy v k = (case getProp v k of None \<Rightarrow> False | Some x \<Rightarrow> jsTruthy x)"

definition unitsJson :: "units \<Rightarrow> json" where
  \<comment> \<open>the JSON string with the code units \<open>u\<close>\<close>
  "unitsJson u = (if list_all (\<lambda>x. x < 256) u then JStr (map char_of u) else JWStr u)"

definition objectKeys :: "json \<Rightarrow> json list" where
  \<comment> \<open>\<^verbatim>\<open>Object.keys(v)\<close> of an object or an array, each key as a JSON string\<close>
  "objectKeys v =
     (case v of JObj kvs \<Rightarrow> map JStr (map fst kvs)
      | JWObj kvs \<Rightarrow> map unitsJson (map fst kvs)
      | JArr xs \<Rightarrow> map JStr (map showNat [0 ..< length xs])
      | _ \<Rightarrow> [])"

section \<open>Data model\<close>

type_synonym headers = "string \<rightharpoonup> string"

text \<open>
  The inbound request as Express hands it to the handler: \<open>originalUrl\<close> is the request
  URL as received; \<open>params_provider\<close> is \<^verbatim>\<open>req.params.provider\<close>, the path segment after
  \<^verbatim>\<open>/api/\<close> as the router decodes it (percent escapes resolved); \<open>headers\<close> has the header
  names in lower case (Node's \<^verbatim>\<open>req.headers\<close>); \<open>body\<close> is \<^verbatim>\<open>req.body\<close>, the value that
  the \<^verbatim>\<open>express.json()\<close> middleware parsed from the bytes \<open>rawBody\<close> of the request; the
  handler reads \<open>body\<close> only.
\<close>

record request =
  originalUrl :: string
  params_provider :: string
  headers :: headers
  body :: json
  rawBody :: string
  ip :: string

datatype validation = Valid | Invalid nat json

datatype path_mode = Fixed | Subpath

record provider =
  name :: string
  targetBaseUrl :: string
  pathMode :: path_mode
  transformHeaders :: "(headers \<Rightarrow> headers) option"
  validateRequest :: "(request \<Rightarrow> validation) option"

text \<open>
  The answer of the handler: the status given to \<^verbatim>\<open>res.status\<close> and the value given to
  \<^verbatim>\<open>res.json\<close> (Express itself sends no body with the statuses 204, 205 and 304).
\<close>

record client_response =
  status :: nat
  payload :: json

text \<open>A thrown value: \<^verbatim>\<open>error.name\<close> and \<^verbatim>\<open>error.message\<close>.\<close>

record js_error =
  errorName :: string
  errorMessage :: string

record upstream_response =
  upstreamStatus :: nat
  contentType :: "string option"
  bodyText :: "js_error + string"

section \<open>Validation functions\<close>

definition validateYandexRequest :: "request \<Rightarrow> validation" where
  \<open>validateYandexRequest req =
     (let apiKey = orElse (headers req ''authorization'')
                     (orElse (headers req ''Authorization'') [])
      in if apiKey = [] then
           Invalid 401 (JObj
             [(''error'', JStr ''Authorization header is required''),
              (''hint'', JStr ''Include your Yandex Cloud API key: "Authorization: Api-Key YOUR_KEY"'')])
         else if \<not> startsWith apiKey ''Api-Key '' \<and> \<not> startsWith apiKey ''Bearer '' then
           Invalid 401 (JObj
             [(''error'', JStr ''Invalid Authorization format''),
              (''hint'', JStr ''Use format: "Api-Key YOUR_KEY" or "Bearer YOUR_IAM_TOKEN"'')])
         else if \<not> jsTruthy (body req) \<or> \<not> isObject (body req) then
           Invalid 400 (JObj
             [(''error'', JStr ''Invalid request body''),
              (''hint'', JStr ''Send JSON with modelUri, completionOptions, and messages'')])
         else if \<not> propTruthy (body req) ''modelUri'' \<or> \<not> propTruthy (body req) ''messages'' then
           Invalid 400 (JObj
             [(''error'', JStr ''Missing required fields''),
              (''hint'', JStr ''Request must include modelUri and messages''),
              (''received'', JArr (objectKeys (body req)))])
         else Valid)\<close>

section \<open>Provider configuration\<close>

definition claude_transformHeaders :: "headers \<Rightarrow> headers" where
  \<comment> \<open>\<^verbatim>\<open>PROVIDERS.claude.transformHeaders\<close>\<close>
  "claude_transformHeaders hs =
     (let auth = orElse (hs ''authorization'') (orElse (hs ''Authorization'') []);
          t1 = (if startsWith auth ''Bearer ''
                then (hs(''x-api-key'' \<mapsto> slice auth 7))
                       (''authorization'' := None, ''Authorization'' := None)
                else hs);
          t2 = (if \<not> truthy (t1 ''anthropic-version'')
                then t1(''anthropic-version'' \<mapsto> ''2023-06-01'')
                else t1)
      in t2(''anthropic-dangerous-direct-browser-access'' := None))"

definition yandex :: provider where
  "yandex =
     \<lparr>name = ''Yandex Cloud'',
      targetBaseUrl = ''https://llm.api.cloud.yandex.net/foundationModels/v1/completion'',
      pathMode = Fixed, transformHeaders = None,
      validateRequest = Some validateYandexRequest\<rparr>"

definition claude :: provider where
  "claude =
     \<lparr>name = ''Anthropic Claude'', targetBaseUrl = ''https://api.anthropic.com/v1'',
      pathMode = Subpath, transformHeaders = Some claude_transformHeaders,
      validateRequest = None\<rparr>"

definition gemini :: provider where
  "gemini =
     \<lparr>name = ''Google Gemini'',
      targetBaseUrl = ''https://generativelanguage.googleapis.com/v1beta'',
      pathMode = Subpath, transformHeaders = None, validateRequest = None\<rparr>"

definition groq :: provider where
  "groq =
     \<lparr>name = ''Groq'', targetBaseUrl = ''https://api.groq.com/openai/v1'',
      pathMode = Subpath, transformHeaders = None, validateRequest = None\<rparr>"

definition mistral :: provider where
  "mistral =
     \<lparr>name = ''Mistral AI'', targetBaseUrl = ''https://api.mistral.ai/v1'',
      pathMode = Subpath, transformHeaders = None, validateRequest = None\<rparr>"

definition cohere :: provider where
  "cohere =
     \<lparr>name = ''Cohere'', targetBaseUrl = ''https://api.cohere.ai/v1'',
      pathMode = Subpath, transformHeaders = None, validateRequest = None\<rparr>"

definition PROVIDERS :: "(string \<times> provider) list" where
  "PROVIDERS =
     [(''yandex'', yandex), (''claude'', claude), (''gemini'', gemini),
      (''groq'', groq), (''mistral'', mistral), (''cohere'', cohere)]"

definition providerKeys :: "string list" where
  \<comment> \<open>\<^verbatim>\<open>Object.keys(PROVIDERS)\<close>\<close>
  "providerKeys = map fst PROVIDERS"

definition objectPrototypeMembers :: "string list" where
  \<comment> \<open>the names that every object literal inherits from \<^verbatim>\<open>Object.prototype\<close>\<close>
  "objectPrototypeMembers =
     [''constructor'', ''__proto__'', ''hasOwnProperty'', ''isPrototypeOf'',
      ''propertyIsEnumerable'', ''toLocaleString'', ''toString'', ''valueOf'',
      ''__defineGetter__'', ''__defineSetter__'', ''__lookupGetter__'', ''__lookupSetter__'']"

definition quietMembers :: "string list" where
  \<comment> \<open>the inherited members that return when they are called as a limiter, with three
      arguments and no receiver; every other one throws a \<^verbatim>\<open>TypeError\<close>\<close>
  "quietMembers = [''constructor'', ''toString'']"

section \<open>Proxy configuration\<close>

type_synonym env = "string \<rightharpoonup> string"

datatype proxy_type = Worker | Http | Socks5

record proxy_config =
  proxyType :: proxy_type
  proxyUrl :: string

definition trimmed :: "string option \<Rightarrow> string option" where
  \<comment> \<open>\<^verbatim>\<open>v && v.trim()\<close>, as a truthy string or nothing\<close>
  "trimmed v =
     (case v of None \<Rightarrow> None
      | Some s \<Rightarrow> if s = [] \<or> trim s = [] then None else Some (trim s))"

definition schemeConfig :: "string \<Rightarrow> proxy_config option" where
  \<comment> \<open>the second half of \<^verbatim>\<open>resolveProxyConfig\<close>: proxy type from the URL scheme\<close>
  "schemeConfig raw =
     (if startsWith raw ''worker://'' then
        Some \<lparr>proxyType = Worker, proxyUrl = ''https://'' @ slice raw (length ''worker://'')\<rparr>
      else if startsWith raw ''socks5://'' \<or> startsWith raw ''socks4://''
              \<or> startsWith raw ''socks://'' then
        Some \<lparr>proxyType = Socks5, proxyUrl = raw\<rparr>
      else if startsWith raw ''http://'' \<or> startsWith raw ''https://'' then
        Some \<lparr>proxyType = Http, proxyUrl = raw\<rparr>
      else None)"

definition resolveProxyConfig :: "env \<Rightarrow> string \<Rightarrow> proxy_config option" where
  "resolveProxyConfig env providerKey =
     (let envKey = ''PROXY_'' @ toUpperCase providerKey;
          perProvider = env envKey
      in if perProvider = Some ''direct'' then None
         else (case (case trimmed perProvider of
                       Some r \<Rightarrow> Some r
                     | None \<Rightarrow> trimmed (env ''PROXY_URL'')) of
                 None \<Rightarrow> None
               | Some raw \<Rightarrow> schemeConfig raw))"

text \<open>
  A dispatcher object of undici or fetch-socks, built from the proxy URL. What the
  libraries parse out of the URL (host, port, credentials) is not modelled; a URL that
  \<^verbatim>\<open>new URL\<close> rejects stops the process at startup, before any request.
\<close>

datatype dispatcher = SocksDispatcher string | ProxyAgent string

definition createProxyDispatcher :: "bool \<Rightarrow> proxy_config option \<Rightarrow> dispatcher option" where
  \<comment> \<open>\<open>socks\<close>: whether the optional module fetch-socks was loaded\<close>
  "createProxyDispatcher socks config =
     (case config of
        None \<Rightarrow> None
      | Some c \<Rightarrow>
          (case proxyType c of
             Worker \<Rightarrow> None
           | Socks5 \<Rightarrow> if \<not> socks then None else Some (SocksDispatcher (proxyUrl c))
           | Http \<Rightarrow> Some (ProxyAgent (proxyUrl c))))"

definition PROXY_CONFIGS :: "env \<Rightarrow> string \<Rightarrow> proxy_config option" where
  \<comment> \<open>resolved at startup, for the keys of the registry\<close>
  "PROXY_CONFIGS env key =
     (if key \<in> set providerKeys then resolveProxyConfig env key else None)"

definition PROXY_DISPATCHERS :: "env \<Rightarrow> bool \<Rightarrow> string \<Rightarrow> dispatcher option" where
  "PROXY_DISPATCHERS env socks key = createProxyDispatcher socks (PROXY_CONFIGS env key)"

section \<open>Helper functions\<close>

text \<open>
  The options of a fetch call (the abort signal is left out: its effect is an
  \<^verbatim>\<open>AbortError\<close> among the outcomes of the call) and the call that finally leaves the
  process: the URL contacted, the options, and the dispatcher it goes through, if any.
  \<open>optBody\<close> is the body as the bytes that are sent: fetch writes a string body in UTF-8.
\<close>

record fetch_options =
  httpMethod :: string
  optHeaders :: headers
  optBody :: string

record outbound_call =
  url :: string
  options :: fetch_options
  via :: "dispatcher option"

definition proxyFetch :: "env \<Rightarrow> bool \<Rightarrow> string \<Rightarrow> fetch_options \<Rightarrow> string \<Rightarrow> outbound_call" where
  \<comment> \<open>the call that \<^verbatim>\<open>proxyFetch(url, options, providerKey)\<close> issues\<close>
  "proxyFetch env socks targetUrl opts providerKey =
     (let direct =
            (case PROXY_DISPATCHERS env socks providerKey of
               Some d \<Rightarrow> \<lparr>url = targetUrl, options = opts, via = Some d\<rparr>
             | None \<Rightarrow> \<lparr>url = targetUrl, options = opts, via = None\<rparr>)
      in case PROXY_CONFIGS env providerKey of
           None \<Rightarrow> direct
         | Some config \<Rightarrow>
             if proxyType config = Worker then
               (let workerHeaders = (optHeaders opts)(''X-Target-URL'' \<mapsto> targetUrl);
                    workerHeaders' =
                      (case env ''PROXY_AUTH_TOKEN'' of
                         None \<Rightarrow> workerHeaders
                       | Some authToken \<Rightarrow>
                           if authToken = [] then workerHeaders
                           else workerHeaders(''X-Auth-Token'' \<mapsto> authToken))
                in \<lparr>url = proxyUrl config, options = opts\<lparr>optHeaders := workerHeaders'\<rparr>,
                    via = None\<rparr>)
             else direct)"

definition buildTargetUrl :: "request \<Rightarrow> provider \<Rightarrow> string \<Rightarrow> string" where
  "buildTargetUrl req provider providerKey =
     (if pathMode provider = Fixed then targetBaseUrl provider
      else (let prefix = ''/api/'' @ providerKey;
                fullPath = originalUrl req;
                subpath = slice fullPath (length prefix);
                base = stripTrailingSlash (targetBaseUrl provider)
            in base @ subpath))"

definition forwardedHeaders :: "request \<Rightarrow> headers" where
  \<comment> \<open>the first part of \<^verbatim>\<open>buildForwardHeaders\<close>: the headers taken over from the
      inbound request\<close>
  "forwardedHeaders req =
     (let h0 = [''Content-Type'' \<mapsto> orElse (headers req ''content-type'') ''application/json''];
          h1 = (if truthy (headers req ''authorization'')
                then h0(''Authorization'' := headers req ''authorization'') else h0);
          h2 = (if truthy (headers req ''anthropic-version'')
                then h1(''anthropic-version'' := headers req ''anthropic-version'') else h1)
      in if truthy (headers req ''anthropic-dangerous-direct-browser-access'')
         then h2(''anthropic-dangerous-direct-browser-access'' :=
                   headers req ''anthropic-dangerous-direct-browser-access'')
         else h2)"

definition buildForwardHeaders :: "request \<Rightarrow> provider \<Rightarrow> headers" where
  "buildForwardHeaders req provider =
     (case transformHeaders provider of
        Some f \<Rightarrow> f (forwardedHeaders req)
      | None \<Rightarrow> forwardedHeaders req)"

definition handleProxyError :: "js_error \<Rightarrow> provider \<Rightarrow> client_response" where
  "handleProxyError error provider =
     (if errorName error = ''AbortError'' \<or> includesStr (errorMessage error) ''timeout'' then
        \<lparr>status = 504, payload = JObj
           [(''error'', JStr ''Gateway Timeout''),
            (''message'', JStr (''Request to '' @ name provider @ '' API timed out'')),
            (''hint'', JStr ''Try again or check the provider status'')]\<rparr>
      else if includesStr (errorMessage error) ''ECONNREFUSED''
              \<and> includesStr (errorMessage error) ''proxy'' then
        \<lparr>status = 502, payload = JObj
           [(''error'', JStr ''Proxy Connection Failed''),
            (''message'', JStr (''Unable to connect to proxy for '' @ name provider)),
            (''hint'', JStr ''Check that the proxy server is running and accessible'')]\<rparr>
      else if includesStr (errorMessage error) ''fetch failed''
              \<or> includesStr (errorMessage error) ''ECONNREFUSED'' then
        \<lparr>status = 502, payload = JObj
           [(''error'', JStr ''Bad Gateway''),
            (''message'', JStr (''Unable to connect to '' @ name provider @ '' API'')),
            (''hint'', JStr (name provider @ '' may be temporarily unavailable''))]\<rparr>
      else
        \<lparr>status = 500, payload = JObj
           [(''error'', JStr ''Internal Proxy Error''),
            (''message'', JStr ''An unexpected error occurred''),
            (''hint'', JStr ''Contact proxy administrator if this persists'')]\<rparr>)"

section \<open>Rate limiting\<close>

text \<open>
  The limiter is the middleware of the library express-rate-limit; the server configures
  one instance per provider, each with its own store, a window of one minute, a maximum
  of 60 and a key made of the client address and the provider key.
\<close>

definition windowMs :: nat where
  "windowMs = 1 * 60 * 1000"

definition maxHits :: nat where
  \<comment> \<open>the option \<^verbatim>\<open>max\<close>\<close>
  "maxHits = 60"

definition keyGenerator :: "string \<Rightarrow> request \<Rightarrow> string" where
  \<comment> \<open>the \<^verbatim>\<open>keyGenerator\<close> of the limiter of provider \<open>key\<close>\<close>
  "keyGenerator key req = ip req @ ''-'' @ key"

definition limiterMessage :: "provider \<Rightarrow> json" where
  \<comment> \<open>the option \<^verbatim>\<open>message\<close>\<close>
  "limiterMessage config =
     JObj [(''error'', JStr (''Too many requests to '' @ name config @ '', please try again later.'')),
           (''retryAfter'', JNum 60)]"

record window_entry =
  hits :: nat
  resetTime :: nat

type_synonym store = "string \<rightharpoonup> window_entry"

definition rateLimit :: "nat \<Rightarrow> string \<Rightarrow> store \<Rightarrow> store \<times> bool" where
  \<comment> \<open>Modelled from the spec: the fixed-window counter of the library express-rate-limit,
      whose code is not part of the repository. An entry is created on the first request
      of a key, counts the requests of the current window and starts afresh when the
      window has elapsed; the result says whether the request exceeds the limit, in which
      case the middleware answers 429 with the configured message itself.\<close>
  "rateLimit now k st =
     (let fresh = \<lparr>hits = 1, resetTime = now + windowMs\<rparr>;
          e = (case st k of
                 None \<Rightarrow> fresh
               | Some old \<Rightarrow> if now < resetTime old then old\<lparr>hits := hits old + 1\<rparr> else fresh)
      in (st(k \<mapsto> e), maxHits < hits e))"

section \<open>Generic proxy handler\<close>

text \<open>
  What the handler runs in: the process environment, whether fetch-socks is installed,
  the network (what a fetch call results in: a response or a thrown error), the JSON
  parser of the runtime (a value or a thrown \<^verbatim>\<open>SyntaxError\<close>) and its serialiser
  \<^verbatim>\<open>JSON.stringify\<close>, whose text is taken in the bytes that fetch sends for it.
\<close>

record runtime =
  processEnv :: env
  socksInstalled :: bool
  fetch :: "outbound_call \<Rightarrow> js_error + upstream_response"
  JSON_parse :: "string \<Rightarrow> js_error + json"
  JSON_stringify :: "json \<Rightarrow> string"

text \<open>
  The outcome of handling one request: the response sent to the client (\<open>None\<close> when the
  handler sends none), the outbound calls made, the stores of the limiters (one per
  provider key) afterwards, and whether the process has ended.
\<close>

record outcome =
  response :: "client_response option"
  calls :: "outbound_call list"
  stores :: "string \<Rightarrow> store"
  exited :: bool

definition decodeResponse :: "runtime \<Rightarrow> upstream_response \<Rightarrow> js_error + json" where
  \<comment> \<open>"Try to parse as JSON, fall back to text": the value of \<open>data\<close>, or what is thrown\<close>
  "decodeResponse rt resp =
     (let ct = orElse (contentType resp) []
      in if includesStr ct ''application/json'' then
           (case bodyText resp of
              Inl e \<Rightarrow> Inl e
            | Inr text \<Rightarrow> JSON_parse rt text)
         else
           (case bodyText resp of
              Inl e \<Rightarrow> Inl e
            | Inr text \<Rightarrow>
                (case JSON_parse rt text of
                   Inr v \<Rightarrow> Inr v
                 | Inl _ \<Rightarrow> Inr (JObj
                     [(''error'', JStr ''Non-JSON response from provider''),
                      (''status'', JNum (real (upstreamStatus resp))),
                      (''body'', JStr (slice2 text 0 500))]))))"

definition outboundCall :: "runtime \<Rightarrow> request \<Rightarrow> provider \<Rightarrow> string \<Rightarrow> outbound_call" where
  \<comment> \<open>target URL, headers and options as \<^verbatim>\<open>proxyRequest\<close> builds them, handed to
      \<^verbatim>\<open>proxyFetch\<close>\<close>
  "outboundCall rt req provider providerKey =
     (let targetUrl = buildTargetUrl req provider providerKey;
          hs = buildForwardHeaders req provider
      in proxyFetch (processEnv rt) (socksInstalled rt) targetUrl
           \<lparr>httpMethod = ''POST'', optHeaders = hs, optBody = JSON_stringify rt (body req)\<rparr>
           providerKey)"

definition forward :: "runtime \<Rightarrow> request \<Rightarrow> provider \<Rightarrow> string \<Rightarrow> client_response \<times> outbound_call list" where
  \<comment> \<open>the \<^verbatim>\<open>try\<close> block of \<^verbatim>\<open>proxyRequest\<close> with its \<^verbatim>\<open>catch\<close>\<close>
  "forward rt req provider providerKey =
     (case (case validateRequest provider of
              Some v \<Rightarrow> v req
            | None \<Rightarrow> Valid) of
        Invalid st err \<Rightarrow> (\<lparr>status = st, payload = err\<rparr>, [])
      | Valid \<Rightarrow>
          (let call = outboundCall rt req provider providerKey
           in case fetch rt call of
                Inl error \<Rightarrow> (handleProxyError error provider, [call])
              | Inr resp \<Rightarrow>
                  (case decodeResponse rt resp of
                     Inl error \<Rightarrow> (handleProxyError error provider, [call])
                   | Inr data \<Rightarrow> (\<lparr>status = upstreamStatus resp, payload = data\<rparr>, [call]))))"

definition proxyRequest :: "runtime \<Rightarrow> (string \<Rightarrow> store) \<Rightarrow> nat \<Rightarrow> request \<Rightarrow> outcome" where
  \<comment> \<open>\<open>sts\<close>: the stores of the limiters; \<open>now\<close>: the time of the request in milliseconds\<close>
  \<open>proxyRequest rt sts now req =
     (let providerKey = params_provider req
      in case map_of PROVIDERS providerKey of
           None \<Rightarrow>
             if providerKey \<in> set objectPrototypeMembers then
               \<comment> \<open>both lookups find the inherited member, which is truthy and is no
                   limiter. Called, a quiet member returns and never calls back: the
                   handler waits for ever and sends nothing. Any other member throws
                   (\<open>__proto__\<close> is not callable), outside the \<^verbatim>\<open>try\<close>: the handler's
                   promise is rejected, nothing handles the rejection, and Node ends the
                   process.\<close>
               \<lparr>response = None, calls = [], stores = sts,
                exited = (providerKey \<notin> set quietMembers)\<rparr>
             else
               \<lparr>response = Some \<lparr>status = 404, payload = JObj
                    [(''error'', JStr ''Unknown provider''),
                     (''message'', JStr (''Provider "'' @ providerKey @ ''" is not supported'')),
                     (''availableProviders'', JArr (map JStr providerKeys))]\<rparr>,
                calls = [], stores = sts, exited = False\<rparr>
         | Some provider \<Rightarrow>
             (let (st', limited) = rateLimit now (keyGenerator providerKey req) (sts providerKey);
                  sts' = sts(providerKey := st')
              in if limited then
                   \<lparr>response = Some \<lparr>status = 429, payload = limiterMessage provider\<rparr>,
                    calls = [], stores = sts', exited = False\<rparr>
                 else
                   (let (res, cs) = forward rt req provider providerKey
                    in \<lparr>response = Some res, calls = cs, stores = sts', exited = False\<rparr>)))\<close>



section \<open>Statements of the specification\<close>

definition recognizedScheme :: "string \<Rightarrow> bool" where
  \<comment> \<open>the schemes that select a relay, a SOCKS proxy or an HTTP proxy\<close>
  "recognizedScheme raw \<longleftrightarrow>
     startsWith raw ''worker://'' \<or> startsWith raw ''socks5://'' \<or> startsWith raw ''socks4://''
     \<or> startsWith raw ''socks://'' \<or> startsWith raw ''http://'' \<or> startsWith raw ''https://''"

definition resolveProxyConfig_claimed :: "env \<Rightarrow> string \<Rightarrow> proxy_config option" where
  \<comment> \<open>transport resolution as the specification words it: the override \<open>direct\<close> forces
      a direct connection; otherwise a non-empty override is used; otherwise the global
      default; the result is direct when neither is set or the scheme is not recognized\<close>
  "resolveProxyConfig_claimed env providerKey =
     (let global = (case env ''PROXY_URL'' of
                      None \<Rightarrow> None
                    | Some g \<Rightarrow> schemeConfig (trim g))
      in case env (''PROXY_'' @ toUpperCase providerKey) of
           None \<Rightarrow> global
         | Some v \<Rightarrow>
             if v = ''direct'' then None
             else if v \<noteq> [] then schemeConfig (trim v)
             else global)"

text \<open>The error taxonomy of the specification for failures of the dispatch.\<close>

datatype failure_kind = GatewayTimeout | ProxyUnreachable | BadGateway | InternalError

definition failureKind :: "js_error \<Rightarrow> failure_kind" where
  \<comment> \<open>classification by the nature of the failure: an abort or timeout; a refused
      connection that mentions the proxy; another refused connection or a generic fetch
      failure; anything else\<close>
  "failureKind e =
     (if errorName e = ''AbortError'' \<or> includesStr (errorMessage e) ''timeout''
        then GatewayTimeout
      else if includesStr (errorMessage e) ''ECONNREFUSED''
              \<and> includesStr (errorMessage e) ''proxy''
        then ProxyUnreachable
      else if includesStr (errorMessage e) ''ECONNREFUSED''
              \<or> includesStr (errorMessage e) ''fetch failed''
        then BadGateway
      else InternalError)"

definition kindStatus :: "failure_kind \<Rightarrow> nat" where
  "kindStatus k =
     (case k of GatewayTimeout \<Rightarrow> 504 | ProxyUnreachable \<Rightarrow> 502
      | BadGateway \<Rightarrow> 502 | InternalError \<Rightarrow> 500)"

definition kindPayload :: "failure_kind \<Rightarrow> string \<Rightarrow> json" where
  \<comment> \<open>the body sent for a kind of failure: fixed texts and the name of the provider\<close>
  "kindPayload k providerName =
     (case k of
        GatewayTimeout \<Rightarrow> JObj
          [(''error'', JStr ''Gateway Timeout''),
           (''message'', JStr (''Request to '' @ providerName @ '' API timed out'')),
           (''hint'', JStr ''Try again or check the provider status'')]
      | ProxyUnreachable \<Rightarrow> JObj
          [(''error'', JStr ''Proxy Connection Failed''),
           (''message'', JStr (''Unable to connect to proxy for '' @ providerName)),
           (''hint'', JStr ''Check that the proxy server is running and accessible'')]
      | BadGateway \<Rightarrow> JObj
          [(''error'', JStr ''Bad Gateway''),
           (''message'', JStr (''Unable to connect to '' @ providerName @ '' API'')),
           (''hint'', JStr (providerName @ '' may be temporarily unavailable''))]
      | InternalError \<Rightarrow> JObj
          [(''error'', JStr ''Internal Proxy Error''),
           (''message'', JStr ''An unexpected error occurred''),
           (''hint'', JStr ''Contact proxy administrator if this persists'')])"



definition passesValidation :: "provider \<Rightarrow> request \<Rightarrow> bool" where
  \<comment> \<open>the provider has no validator, or its validator accepts the request\<close>
  "passesValidation p req \<longleftrightarrow>
     (case validateRequest p of None \<Rightarrow> True | Some f \<Rightarrow> f req = Valid)"


section \<open>Example inputs\<close>

definition exampleTarget :: provider where
  \<comment> \<open>the target \<open>T\<close> of the path-composition example\<close>
  "exampleTarget =
     \<lparr>name = ''Target'', targetBaseUrl = ''https://api.example.com/v1'', pathMode = Subpath,
      transformHeaders = None, validateRequest = None\<rparr>"

definition exampleRequest :: request where
  "exampleRequest =
     \<lparr>originalUrl = ''/api/T/chat/completions?x=1'', params_provider = ''T'',
      headers = Map.empty, body = JObj [], rawBody = ''{}'', ip = ''10.0.0.1''\<rparr>"

definition exampleClaudeRequest :: request where
  \<open>exampleClaudeRequest =
     \<lparr>originalUrl = ''/api/claude/messages'', params_provider = ''claude'',
      headers = [''authorization'' \<mapsto> ''Bearer sk-123'',
                 ''anthropic-dangerous-direct-browser-access'' \<mapsto> ''true''],
      body = JObj [(''a'', JNum 1)], rawBody = ''{ "a": 1 }'', ip = ''10.0.0.1''\<rparr>\<close>

definition blankOverrideEnv :: env where
  \<comment> \<open>a white-space override for Claude and a global HTTP proxy\<close>
  "blankOverrideEnv = [''PROXY_CLAUDE'' \<mapsto> '' '', ''PROXY_URL'' \<mapsto> ''http://proxy:8080'']"

definition directOverrideEnv :: env where
  "directOverrideEnv = [''PROXY_CLAUDE'' \<mapsto> ''direct'', ''PROXY_URL'' \<mapsto> ''http://proxy:8080'']"

definition relayOverrideEnv :: env where
  "relayOverrideEnv =
     [''PROXY_CLAUDE'' \<mapsto> ''worker://relay.example.workers.dev'',
      ''PROXY_URL'' \<mapsto> ''http://proxy:8080'', ''PROXY_AUTH_TOKEN'' \<mapsto> ''s3cret'']"

definition globalOnlyEnv :: env where
  "globalOnlyEnv = [''PROXY_URL'' \<mapsto> ''socks5://10.0.0.9:1080'']"

definition exampleYandexRequest :: request where
  \<comment> \<open>a request that passes the checks of the Yandex validator\<close>
  \<open>exampleYandexRequest =
     \<lparr>originalUrl = ''/api/yandex'', params_provider = ''yandex'',
      headers = [''authorization'' \<mapsto> ''Api-Key k1''],
      body = JObj [(''modelUri'', JStr ''gpt://folder/yandexgpt-lite''),
                   (''messages'', JArr [JObj [(''role'', JStr ''user''), (''text'', JStr ''Hello'')]])],
      rawBody = ''{"modelUri":"gpt://folder/yandexgpt-lite","messages":[{"role":"user","text":"Hello"}]}'',
      ip = ''10.0.0.1''\<rparr>\<close>

definition exampleRuntime :: runtime where
  \<comment> \<open>no proxy configured; an upstream that answers 200 with the JSON text \<open>{}\<close>; of
      the parser and the serialiser, what they do on the texts and values of the
      examples\<close>
  \<open>exampleRuntime =
     \<lparr>processEnv = Map.empty, socksInstalled = False,
      fetch = (\<lambda>c. Inr \<lparr>upstreamStatus = 200, contentType = Some ''application/json'',
                            bodyText = Inr ''{}''\<rparr>),
      JSON_parse = (\<lambda>s. if s = ''{}'' then Inr (JObj [])
                        else Inl \<lparr>errorName = ''SyntaxError'',
                                  errorMessage = ''Unexpected token in JSON at position 0''\<rparr>),
      JSON_stringify = (\<lambda>v. if v = JObj [(''a'', JNum 1)] then ''{"a":1}'' else ''{}'')\<rparr>\<close>

definition relayRuntime :: runtime where
  \<comment> \<open>the example runtime with a relay configured for Claude\<close>
  "relayRuntime = exampleRuntime\<lparr>processEnv := relayOverrideEnv\<rparr>"

definition abortError :: js_error where
  "abortError = \<lparr>errorName = ''AbortError'', errorMessage = ''This operation was aborted''\<rparr>"

definition fetchFailed :: js_error where
  "fetchFailed = \<lparr>errorName = ''TypeError'', errorMessage = ''fetch failed''\<rparr>"

definition notJsonResponse :: upstream_response where
  \<comment> \<open>an upstream error page that is declared as JSON and is not\<close>
  "notJsonResponse =
     \<lparr>upstreamStatus = 502, contentType = Some ''application/json'',
      bodyText = Inr ''Bad Gateway''\<rparr>"

definition encodedClaudeRequest :: request where
  \<comment> \<open>the request \<^verbatim>\<open>POST /api/%63laude/messages?x=1\<close>: the router matches the route
      and hands over the decoded segment \<open>claude\<close>\<close>
  "encodedClaudeRequest =
     exampleClaudeRequest\<lparr>originalUrl := ''/api/%63laude/messages?x=1''\<rparr>"


section \<open>URL composition\<close>

lemma startsWith_append: "startsWith (p @ r) p"
  by (simp add: startsWith_def)

lemma slice_append: "slice (p @ r) (length p) = r"
  by (simp add: slice_def)

lemma stripTrailingSlash_slash: "stripTrailingSlash (b @ ''/'') = b"
  by (simp add: stripTrailingSlash_def)

lemma stripTrailingSlash_other:
  "b = [] \<or> last b \<noteq> CHR ''/'' \<Longrightarrow> stripTrailingSlash b = b"
  by (auto simp: stripTrailingSlash_def)

lemma buildTargetUrl_subpath:
  assumes "pathMode p = Subpath" and "originalUrl req = ''/api/'' @ key @ rest"
  shows "buildTargetUrl req p key = stripTrailingSlash (targetBaseUrl p) @ rest"
proof -
  have "slice (originalUrl req) (length (''/api/'' @ key)) = rest"
    using assms(2) slice_append [of "''/api/'' @ key" rest] by simp
  with assms(1) show ?thesis
    by (simp add: buildTargetUrl_def Let_def)
qed

lemma buildTargetUrl_fixed:
  "pathMode p = Fixed \<Longrightarrow> buildTargetUrl req p key = targetBaseUrl p"
  by (simp add: buildTargetUrl_def)

lemma buildTargetUrl_verbatim:
  assumes "pathMode p = Subpath" and "originalUrl req = ''/api/'' @ key @ rest"
  shows "targetBaseUrl p = b @ ''/'' \<Longrightarrow> buildTargetUrl req p key = b @ rest"
    and "targetBaseUrl p = [] \<or> last (targetBaseUrl p) \<noteq> CHR ''/'' \<Longrightarrow>
           buildTargetUrl req p key = targetBaseUrl p @ rest"
  using buildTargetUrl_subpath [OF assms]
  by (simp_all add: stripTrailingSlash_slash stripTrailingSlash_other)

lemma buildTargetUrl_example:
  "buildTargetUrl exampleRequest exampleTarget ''T''
     = ''https://api.example.com/v1/chat/completions?x=1''"
  "buildTargetUrl exampleRequest (exampleTarget\<lparr>targetBaseUrl := ''https://api.example.com/v1/''\<rparr>)
     ''T'' = ''https://api.example.com/v1/chat/completions?x=1''"
  "buildTargetUrl exampleRequest (exampleTarget\<lparr>pathMode := Fixed\<rparr>) ''T''
     = ''https://api.example.com/v1''"
  by (simp_all add: buildTargetUrl_def exampleTarget_def exampleRequest_def slice_def
      stripTrailingSlash_def)



section \<open>Header rewriting\<close>

lemma bearer_prefix: "startsWith (''Bearer '' @ cred) ''Bearer ''"
  by (simp add: startsWith_def)

lemma bearer_slice: "slice (''Bearer '' @ cred) 7 = cred"
  by (simp add: slice_def)

lemma forwardedHeaders_lower: "forwardedHeaders req ''authorization'' = None"
  by (simp add: forwardedHeaders_def Let_def)

lemma forwardedHeaders_Authorization:
  "forwardedHeaders req ''Authorization'' =
     (if truthy (headers req ''authorization'') then headers req ''authorization'' else None)"
  by (simp add: forwardedHeaders_def Let_def)

lemma forwardedHeaders_version:
  "forwardedHeaders req ''anthropic-version'' =
     (if truthy (headers req ''anthropic-version'') then headers req ''anthropic-version''
      else None)"
  by (simp add: forwardedHeaders_def Let_def)

lemma truthy_dom: "truthy (h k) \<Longrightarrow> k \<in> dom h"
  by (auto simp: truthy_def split: option.splits)

lemma dom_forwardedHeaders:
  "dom (forwardedHeaders req) \<subseteq>
     {''Content-Type'', ''Authorization'', ''anthropic-version'',
      ''anthropic-dangerous-direct-browser-access''}"
  by (auto simp: forwardedHeaders_def Let_def split: if_splits)

lemma contentType_forwardedHeaders: "''Content-Type'' \<in> dom (forwardedHeaders req)"
  by (auto simp: forwardedHeaders_def Let_def split: if_splits)

lemma claude_transformHeaders_bearer:
  assumes "hs ''authorization'' = None" "hs ''Authorization'' = Some (''Bearer '' @ cred)"
  shows "claude_transformHeaders hs ''Authorization'' = None"
    and "claude_transformHeaders hs ''authorization'' = None"
    and "claude_transformHeaders hs ''x-api-key'' = Some cred"
    and "dom (claude_transformHeaders hs) =
           insert ''x-api-key'' (insert ''anthropic-version''
             (dom hs - {''authorization'', ''Authorization'',
                        ''anthropic-dangerous-direct-browser-access''}))"
proof -
  have a: "orElse (hs ''authorization'') (orElse (hs ''Authorization'') []) = ''Bearer '' @ cred"
    using assms by (simp add: orElse_def)
  show "claude_transformHeaders hs ''Authorization'' = None"
    unfolding claude_transformHeaders_def a Let_def
    by (simp add: bearer_prefix del: append.simps)
  show "claude_transformHeaders hs ''authorization'' = None"
    unfolding claude_transformHeaders_def a Let_def
    by (simp add: bearer_prefix del: append.simps)
  show "claude_transformHeaders hs ''x-api-key'' = Some cred"
    unfolding claude_transformHeaders_def a Let_def
    by (simp add: bearer_prefix bearer_slice del: append.simps)
  show "dom (claude_transformHeaders hs) =
           insert ''x-api-key'' (insert ''anthropic-version''
             (dom hs - {''authorization'', ''Authorization'',
                        ''anthropic-dangerous-direct-browser-access''}))"
  proof (cases "truthy (hs ''anthropic-version'')")
    case True
    then have "''anthropic-version'' \<in> dom hs" by (rule truthy_dom)
    with True show ?thesis
      unfolding claude_transformHeaders_def a Let_def
      by (auto simp: bearer_prefix simp del: append.simps)
  next
    case False
    then show ?thesis
      unfolding claude_transformHeaders_def a Let_def
      by (auto simp: bearer_prefix simp del: append.simps)
  qed
qed

lemma claude_transformHeaders_version:
  "\<not> truthy (hs ''anthropic-version'') \<Longrightarrow>
     claude_transformHeaders hs ''anthropic-version'' = Some ''2023-06-01''"
  by (simp add: claude_transformHeaders_def Let_def)

lemma claude_transformHeaders_browser_access:
  "claude_transformHeaders hs ''anthropic-dangerous-direct-browser-access'' = None"
  by (simp add: claude_transformHeaders_def Let_def)

lemma buildForwardHeaders_claude:
  "buildForwardHeaders req claude = claude_transformHeaders (forwardedHeaders req)"
  by (simp add: buildForwardHeaders_def claude_def)

lemma dom_after_bearer:
  assumes "F \<subseteq> {ct, A, v, ba}" and "ct \<in> F" and "ct \<noteq> a" "ct \<noteq> A" "ct \<noteq> ba"
  shows "insert x (insert v (F - {a, A, ba})) = {ct, x, v}"
  using assms by blast

lemma claude_bearer_headers:
  assumes "headers req ''authorization'' = Some (''Bearer '' @ cred)"
  shows "buildForwardHeaders req claude ''Authorization'' = None"
    and "buildForwardHeaders req claude ''authorization'' = None"
    and "buildForwardHeaders req claude ''x-api-key'' = Some cred"
    and "dom (buildForwardHeaders req claude)
           = {''Content-Type'', ''x-api-key'', ''anthropic-version''}"
proof -
  have t: "truthy (headers req ''authorization'')"
    using assms by (simp add: truthy_def)
  have l: "forwardedHeaders req ''authorization'' = None"
    by (rule forwardedHeaders_lower)
  have u: "forwardedHeaders req ''Authorization'' = Some (''Bearer '' @ cred)"
    using assms t by (simp add: forwardedHeaders_Authorization)
  note b = claude_transformHeaders_bearer [OF l u]
  show "buildForwardHeaders req claude ''Authorization'' = None"
    unfolding buildForwardHeaders_claude by (rule b(1))
  show "buildForwardHeaders req claude ''authorization'' = None"
    unfolding buildForwardHeaders_claude by (rule b(2))
  show "buildForwardHeaders req claude ''x-api-key'' = Some cred"
    unfolding buildForwardHeaders_claude by (rule b(3))
  have ne: "''Content-Type'' \<noteq> ''authorization''" "''Content-Type'' \<noteq> ''Authorization''"
    "''Content-Type'' \<noteq> ''anthropic-dangerous-direct-browser-access''"
    by simp_all
  show "dom (buildForwardHeaders req claude)
          = {''Content-Type'', ''x-api-key'', ''anthropic-version''}"
    unfolding buildForwardHeaders_claude b(4)
    by (rule dom_after_bearer [OF dom_forwardedHeaders contentType_forwardedHeaders ne])
qed

text \<open>
  C3. For the Claude target: when the inbound Authorization header is \<open>Bearer\<close> followed
  by a credential, the outbound headers have no Authorization entry (they are exactly
  Content-Type, x-api-key and anthropic-version) and x-api-key carries the credential;
  when the inbound request has no anthropic-version header, the outbound headers carry
  the default version; the browser-access header is never sent.
\<close>

theorem claude_header_rewrite:
  "(headers req ''authorization'' = Some (''Bearer '' @ cred) \<longrightarrow>
        buildForwardHeaders req claude ''Authorization'' = None
      \<and> buildForwardHeaders req claude ''authorization'' = None
      \<and> buildForwardHeaders req claude ''x-api-key'' = Some cred
      \<and> dom (buildForwardHeaders req claude)
          = {''Content-Type'', ''x-api-key'', ''anthropic-version''})
   \<and> (headers req ''anthropic-version'' = None \<longrightarrow>
        buildForwardHeaders req claude ''anthropic-version'' = Some ''2023-06-01'')
   \<and> buildForwardHeaders req claude ''anthropic-dangerous-direct-browser-access'' = None"
proof (intro conjI impI)
  assume "headers req ''anthropic-version'' = None"
  then have "\<not> truthy (forwardedHeaders req ''anthropic-version'')"
    by (simp add: forwardedHeaders_version truthy_def)
  then show "buildForwardHeaders req claude ''anthropic-version'' = Some ''2023-06-01''"
    unfolding buildForwardHeaders_claude by (rule claude_transformHeaders_version)
next
  show "buildForwardHeaders req claude ''anthropic-dangerous-direct-browser-access'' = None"
    unfolding buildForwardHeaders_claude by (rule claude_transformHeaders_browser_access)
qed (simp_all only: claude_bearer_headers)

theorem claude_header_rewrite_witness:
  "buildForwardHeaders exampleClaudeRequest claude ''Authorization'' = None
   \<and> buildForwardHeaders exampleClaudeRequest claude ''authorization'' = None
   \<and> buildForwardHeaders exampleClaudeRequest claude ''x-api-key'' = Some ''sk-123''
   \<and> buildForwardHeaders exampleClaudeRequest claude ''anthropic-version''
        = Some ''2023-06-01''
   \<and> buildForwardHeaders exampleClaudeRequest claude
        ''anthropic-dangerous-direct-browser-access'' = None"
  using claude_header_rewrite [of exampleClaudeRequest "''sk-123''"]
  by (simp add: exampleClaudeRequest_def)

section \<open>Transport resolution\<close>

lemma trimmed_None_iff:
  "trimmed v = None \<longleftrightarrow> (case v of None \<Rightarrow> True | Some s \<Rightarrow> trim s = [])"
  by (auto simp: trimmed_def trim_def split: option.splits)

lemma trimmed_Some: "trim s \<noteq> [] \<Longrightarrow> trimmed (Some s) = Some (trim s)"
  by (auto simp: trimmed_def trim_def)

lemma trimmed_blank: "trim s = [] \<Longrightarrow> trimmed (Some s) = None"
  by (simp add: trimmed_def)

lemma schemeConfig_None_iff: "schemeConfig raw = None \<longleftrightarrow> \<not> recognizedScheme raw"
  by (auto simp: schemeConfig_def recognizedScheme_def)

lemma upper_claude: "toUpperCase ''claude'' = ''CLAUDE''"
  by (simp add: toUpperCase_def upperTable_def)

text \<open>
  C2, as the specification words it, fails: a per-target override that is not empty but
  consists of white space only is not used; the global default is.
\<close>

theorem resolveProxyConfig_blank_override:
  "resolveProxyConfig blankOverrideEnv ''claude''
     = Some \<lparr>proxyType = Http, proxyUrl = ''http://proxy:8080''\<rparr>
   \<and> resolveProxyConfig_claimed blankOverrideEnv ''claude'' = None"
  by (simp add: resolveProxyConfig_def resolveProxyConfig_claimed_def blankOverrideEnv_def
      upper_claude trimmed_def trim_def isWhiteSpace_def schemeConfig_def startsWith_def Let_def)

lemma resolve_direct:
  "env (''PROXY_'' @ toUpperCase key) = Some ''direct'' \<Longrightarrow> resolveProxyConfig env key = None"
  by (simp add: resolveProxyConfig_def)

lemma resolve_override:
  "env (''PROXY_'' @ toUpperCase key) = Some v \<Longrightarrow> v \<noteq> ''direct'' \<Longrightarrow> trim v \<noteq> [] \<Longrightarrow>
     resolveProxyConfig env key = schemeConfig (trim v)"
  by (simp add: resolveProxyConfig_def trimmed_Some)

lemma resolve_global:
  assumes "trimmed (env (''PROXY_'' @ toUpperCase key)) = None"
    and "env (''PROXY_'' @ toUpperCase key) \<noteq> Some ''direct''"
  shows "resolveProxyConfig env key =
           (case trimmed (env ''PROXY_URL'') of None \<Rightarrow> None | Some raw \<Rightarrow> schemeConfig raw)"
  using assms by (simp add: resolveProxyConfig_def)

lemma trim_direct: "trim ''direct'' \<noteq> []"
  by (simp add: trim_def isWhiteSpace_def)

text \<open>
  C2, amended. The per-target override is consulted first and the literal \<open>direct\<close>
  forces a direct connection whatever the global default is; otherwise an override that
  is not empty after trimming is used, trimmed; otherwise the global default is, trimmed,
  when it is not empty after trimming; when neither is, the result is direct, and so it
  is when the chosen value has no recognized scheme.
\<close>

theorem resolveProxyConfig_priority:
  "(env (''PROXY_'' @ toUpperCase key) = Some ''direct'' \<longrightarrow> resolveProxyConfig env key = None)
    \<and> (env (''PROXY_'' @ toUpperCase key) = Some v \<and> v \<noteq> ''direct'' \<and> trim v \<noteq> [] \<longrightarrow>
          resolveProxyConfig env key = schemeConfig (trim v))
    \<and> ((env (''PROXY_'' @ toUpperCase key) = None
          \<or> env (''PROXY_'' @ toUpperCase key) = Some v \<and> trim v = [])
        \<and> env ''PROXY_URL'' = Some g \<and> trim g \<noteq> [] \<longrightarrow>
          resolveProxyConfig env key = schemeConfig (trim g))
    \<and> ((env (''PROXY_'' @ toUpperCase key) = None
          \<or> env (''PROXY_'' @ toUpperCase key) = Some v \<and> trim v = [])
        \<and> (env ''PROXY_URL'' = None \<or> env ''PROXY_URL'' = Some g \<and> trim g = []) \<longrightarrow>
          resolveProxyConfig env key = None)
    \<and> (schemeConfig raw = None \<longleftrightarrow> \<not> recognizedScheme raw)"
proof (intro conjI impI)
  assume "env (''PROXY_'' @ toUpperCase key) = Some ''direct''"
  then show "resolveProxyConfig env key = None" by (rule resolve_direct)
next
  assume "env (''PROXY_'' @ toUpperCase key) = Some v \<and> v \<noteq> ''direct'' \<and> trim v \<noteq> []"
  then show "resolveProxyConfig env key = schemeConfig (trim v)"
    by (simp add: resolve_override)
next
  assume a: "(env (''PROXY_'' @ toUpperCase key) = None
          \<or> env (''PROXY_'' @ toUpperCase key) = Some v \<and> trim v = [])
        \<and> env ''PROXY_URL'' = Some g \<and> trim g \<noteq> []"
  then have "trimmed (env (''PROXY_'' @ toUpperCase key)) = None"
    by (auto simp: trimmed_def)
  moreover from a have "env (''PROXY_'' @ toUpperCase key) \<noteq> Some ''direct''"
    using trim_direct by auto
  ultimately show "resolveProxyConfig env key = schemeConfig (trim g)"
    using a by (simp add: resolve_global trimmed_Some)
next
  assume a: "(env (''PROXY_'' @ toUpperCase key) = None
          \<or> env (''PROXY_'' @ toUpperCase key) = Some v \<and> trim v = [])
        \<and> (env ''PROXY_URL'' = None \<or> env ''PROXY_URL'' = Some g \<and> trim g = [])"
  then have "trimmed (env (''PROXY_'' @ toUpperCase key)) = None"
    by (auto simp: trimmed_def)
  moreover from a have "env (''PROXY_'' @ toUpperCase key) \<noteq> Some ''direct''"
    using trim_direct by auto
  moreover from a have "trimmed (env ''PROXY_URL'') = None"
    by (auto simp: trimmed_def)
  ultimately show "resolveProxyConfig env key = None"
    by (simp add: resolve_global)
next
  show "schemeConfig raw = None \<longleftrightarrow> \<not> recognizedScheme raw"
    by (rule schemeConfig_None_iff)
qed


theorem resolveProxyConfig_priority_witness:
  "resolveProxyConfig directOverrideEnv ''claude'' = None
   \<and> resolveProxyConfig relayOverrideEnv ''claude''
       = Some \<lparr>proxyType = Worker, proxyUrl = ''https://relay.example.workers.dev''\<rparr>
   \<and> resolveProxyConfig globalOnlyEnv ''claude''
       = Some \<lparr>proxyType = Socks5, proxyUrl = ''socks5://10.0.0.9:1080''\<rparr>
   \<and> resolveProxyConfig blankOverrideEnv ''claude''
       = Some \<lparr>proxyType = Http, proxyUrl = ''http://proxy:8080''\<rparr>
   \<and> resolveProxyConfig Map.empty ''claude'' = None
   \<and> schemeConfig ''ftp://proxy:21'' = None"
  using resolveProxyConfig_priority [of directOverrideEnv "''claude''" "''direct''" "''http://proxy:8080''" "''ftp://proxy:21''"]
    resolveProxyConfig_priority [of relayOverrideEnv "''claude''" "''worker://relay.example.workers.dev''" "''http://proxy:8080''" "''ftp://proxy:21''"]
    resolveProxyConfig_priority [of globalOnlyEnv "''claude''" "[]" "''socks5://10.0.0.9:1080''" "''ftp://proxy:21''"]
    resolveProxyConfig_priority [of blankOverrideEnv "''claude''" "'' ''" "''http://proxy:8080''" "''ftp://proxy:21''"]
    resolveProxyConfig_priority [of Map.empty "''claude''" "[]" "[]" "''ftp://proxy:21''"]
  by (simp add: directOverrideEnv_def relayOverrideEnv_def globalOnlyEnv_def blankOverrideEnv_def
      upper_claude trim_def isWhiteSpace_def schemeConfig_def recognizedScheme_def
      startsWith_def slice_def)

section \<open>Validation of Yandex requests\<close>

lemma startsWith_nonempty: "startsWith v (c # p) \<Longrightarrow> v \<noteq> []"
  by (auto simp: startsWith_def)

lemma validate_no_header:
  assumes "headers req ''authorization'' = None" "headers req ''Authorization'' = None"
  shows \<open>validateYandexRequest req = Invalid 401 (JObj
             [(''error'', JStr ''Authorization header is required''),
              (''hint'', JStr ''Include your Yandex Cloud API key: "Authorization: Api-Key YOUR_KEY"'')])\<close>
  using assms by (simp add: validateYandexRequest_def orElse_def)

lemma validate_bad_scheme:
  assumes "headers req ''authorization'' = Some v" "v \<noteq> []"
    "\<not> startsWith v ''Api-Key ''" "\<not> startsWith v ''Bearer ''"
  shows \<open>validateYandexRequest req = Invalid 401 (JObj
             [(''error'', JStr ''Invalid Authorization format''),
              (''hint'', JStr ''Use format: "Api-Key YOUR_KEY" or "Bearer YOUR_IAM_TOKEN"'')])\<close>
  using assms by (simp add: validateYandexRequest_def orElse_def)

lemma validate_missing_fields:
  assumes "headers req ''authorization'' = Some v"
    "startsWith v ''Api-Key '' \<or> startsWith v ''Bearer ''"
    "body req = JObj kvs"
    "\<not> propTruthy (JObj kvs) ''modelUri'' \<or> \<not> propTruthy (JObj kvs) ''messages''"
  shows \<open>validateYandexRequest req = Invalid 400 (JObj
             [(''error'', JStr ''Missing required fields''),
              (''hint'', JStr ''Request must include modelUri and messages''),
              (''received'', JArr (map JStr (map fst kvs)))])\<close>
proof -
  have "v \<noteq> []" using assms(2) startsWith_nonempty by blast
  then have a: "orElse (headers req ''authorization'') (orElse (headers req ''Authorization'') []) = v"
    using assms(1) by (simp add: orElse_def)
  show ?thesis
    unfolding validateYandexRequest_def a Let_def
    using assms(2-4) \<open>v \<noteq> []\<close>
    by (auto simp: jsTruthy_def isObject_def objectKeys_def)
qed

lemma validate_ok:
  assumes "headers req ''authorization'' = Some v"
    "startsWith v ''Api-Key '' \<or> startsWith v ''Bearer ''"
    "body req = JObj kvs"
    "propTruthy (JObj kvs) ''modelUri''" "propTruthy (JObj kvs) ''messages''"
  shows "validateYandexRequest req = Valid"
proof -
  have "v \<noteq> []" using assms(2) startsWith_nonempty by blast
  then have a: "orElse (headers req ''authorization'') (orElse (headers req ''Authorization'') []) = v"
    using assms(1) by (simp add: orElse_def)
  show ?thesis
    unfolding validateYandexRequest_def a Let_def
    using assms(2-5) \<open>v \<noteq> []\<close>
    by (auto simp: jsTruthy_def isObject_def)
qed

lemma propTruthy_absent: "map_of kvs k = None \<Longrightarrow> \<not> propTruthy (JObj kvs) k"
  by (simp add: propTruthy_def getProp_def)

lemma forward_invalid:
  assumes "validateRequest p = Some f" "f req = Invalid st err"
  shows "forward rt req p key = (\<lparr>status = st, payload = err\<rparr>, [])"
  using assms by (simp add: forward_def)

lemma yandex_validator: "validateRequest yandex = Some validateYandexRequest"
  by (simp add: yandex_def)


lemma proxyRequest_not_limited:
  assumes "map_of PROVIDERS (params_provider req) = Some p"
    and "\<not> snd (rateLimit now (keyGenerator (params_provider req) req) (sts (params_provider req)))"
  shows "response (proxyRequest rt sts now req)
           = Some (fst (forward rt req p (params_provider req)))"
    and "calls (proxyRequest rt sts now req) = snd (forward rt req p (params_provider req))"
  using assms by (auto simp: proxyRequest_def Let_def split: prod.splits)


lemma registered_yandex: "map_of PROVIDERS ''yandex'' = Some yandex"
  by (simp add: PROVIDERS_def)

lemma yandex_rejected:
  assumes "params_provider req = ''yandex''"
    and "\<not> snd (rateLimit now (keyGenerator ''yandex'' req) (sts ''yandex''))"
    and "validateYandexRequest req = Invalid st err"
  shows "response (proxyRequest rt sts now req) = Some \<lparr>status = st, payload = err\<rparr>"
    and "calls (proxyRequest rt sts now req) = []"
proof -
  have f: "forward rt req yandex ''yandex'' = (\<lparr>status = st, payload = err\<rparr>, [])"
    using yandex_validator assms(3) by (rule forward_invalid)
  have r: "map_of PROVIDERS (params_provider req) = Some yandex"
    using assms(1) registered_yandex by simp
  have l: "\<not> snd (rateLimit now (keyGenerator (params_provider req) req) (sts (params_provider req)))"
    using assms(1,2) by simp
  show "response (proxyRequest rt sts now req) = Some \<lparr>status = st, payload = err\<rparr>"
    using proxyRequest_not_limited(1) [where req=req and p=yandex and sts=sts and now=now and rt=rt] r l f assms(1) by simp
  show "calls (proxyRequest rt sts now req) = []"
    using proxyRequest_not_limited(2) [where req=req and p=yandex and sts=sts and now=now and rt=rt] r l f assms(1) by simp
qed

text \<open>
  C7. The Yandex validator checks in order, and each violation has its own answer: no
  Authorization header gives 401 with a hint that shows the expected header; a value
  with neither prefix gives 401 with another message; with the header in order, an object
  body that lacks \<open>modelUri\<close> or \<open>messages\<close> gives 400 and lists the keys received; a
  request that has an accepted prefix and both fields is valid. The handler answers a
  rejected request with that status and body and makes no outbound call.
\<close>

theorem validateYandexRequest_outcomes:
  \<open>(headers req ''authorization'' = None \<and> headers req ''Authorization'' = None \<longrightarrow>
      validateYandexRequest req = Invalid 401 (JObj
        [(''error'', JStr ''Authorization header is required''),
         (''hint'', JStr ''Include your Yandex Cloud API key: "Authorization: Api-Key YOUR_KEY"'')]))
   \<and> (headers req ''authorization'' = Some v \<and> v \<noteq> []
        \<and> \<not> startsWith v ''Api-Key '' \<and> \<not> startsWith v ''Bearer '' \<longrightarrow>
      validateYandexRequest req = Invalid 401 (JObj
        [(''error'', JStr ''Invalid Authorization format''),
         (''hint'', JStr ''Use format: "Api-Key YOUR_KEY" or "Bearer YOUR_IAM_TOKEN"'')]))
   \<and> (headers req ''authorization'' = Some v
        \<and> (startsWith v ''Api-Key '' \<or> startsWith v ''Bearer '')
        \<and> body req = JObj kvs
        \<and> (map_of kvs ''modelUri'' = None \<or> map_of kvs ''messages'' = None) \<longrightarrow>
      validateYandexRequest req = Invalid 400 (JObj
        [(''error'', JStr ''Missing required fields''),
         (''hint'', JStr ''Request must include modelUri and messages''),
         (''received'', JArr (map JStr (map fst kvs)))]))
   \<and> (headers req ''authorization'' = Some v
        \<and> (startsWith v ''Api-Key '' \<or> startsWith v ''Bearer '')
        \<and> body req = JObj kvs
        \<and> propTruthy (JObj kvs) ''modelUri'' \<and> propTruthy (JObj kvs) ''messages'' \<longrightarrow>
      validateYandexRequest req = Valid)
   \<and> (params_provider req = ''yandex''
        \<and> \<not> snd (rateLimit now (keyGenerator ''yandex'' req) (sts ''yandex''))
        \<and> validateYandexRequest req = Invalid st err \<longrightarrow>
      response (proxyRequest rt sts now req) = Some \<lparr>status = st, payload = err\<rparr>
      \<and> calls (proxyRequest rt sts now req) = [])\<close>
proof (intro conjI impI)
  assume "headers req ''authorization'' = None \<and> headers req ''Authorization'' = None"
  then show \<open>validateYandexRequest req = Invalid 401 (JObj
        [(''error'', JStr ''Authorization header is required''),
         (''hint'', JStr ''Include your Yandex Cloud API key: "Authorization: Api-Key YOUR_KEY"'')])\<close>
    by (simp add: validate_no_header)
next
  assume "headers req ''authorization'' = Some v \<and> v \<noteq> []
        \<and> \<not> startsWith v ''Api-Key '' \<and> \<not> startsWith v ''Bearer ''"
  then show \<open>validateYandexRequest req = Invalid 401 (JObj
        [(''error'', JStr ''Invalid Authorization format''),
         (''hint'', JStr ''Use format: "Api-Key YOUR_KEY" or "Bearer YOUR_IAM_TOKEN"'')])\<close>
    by (simp add: validate_bad_scheme)
next
  assume a: "headers req ''authorization'' = Some v
        \<and> (startsWith v ''Api-Key '' \<or> startsWith v ''Bearer '')
        \<and> body req = JObj kvs
        \<and> (map_of kvs ''modelUri'' = None \<or> map_of kvs ''messages'' = None)"
  then have "\<not> propTruthy (JObj kvs) ''modelUri'' \<or> \<not> propTruthy (JObj kvs) ''messages''"
    using propTruthy_absent by blast
  with a show "validateYandexRequest req = Invalid 400 (JObj
        [(''error'', JStr ''Missing required fields''),
         (''hint'', JStr ''Request must include modelUri and messages''),
         (''received'', JArr (map JStr (map fst kvs)))])"
    using validate_missing_fields [of req v kvs] by blast
next
  assume "headers req ''authorization'' = Some v
        \<and> (startsWith v ''Api-Key '' \<or> startsWith v ''Bearer '')
        \<and> body req = JObj kvs
        \<and> propTruthy (JObj kvs) ''modelUri'' \<and> propTruthy (JObj kvs) ''messages''"
  then show "validateYandexRequest req = Valid"
    using validate_ok [of req v kvs] by blast
next
  assume a: "params_provider req = ''yandex''
        \<and> \<not> snd (rateLimit now (keyGenerator ''yandex'' req) (sts ''yandex''))
        \<and> validateYandexRequest req = Invalid st err"
  then show "response (proxyRequest rt sts now req) = Some \<lparr>status = st, payload = err\<rparr>"
    using yandex_rejected(1) [of req now sts st err rt] by blast
  from a show "calls (proxyRequest rt sts now req) = []"
    using yandex_rejected(2) [of req now sts st err rt] by blast
qed


theorem validateYandexRequest_outcomes_witness:
  \<open>validateYandexRequest (exampleYandexRequest\<lparr>headers := Map.empty\<rparr>)
     = Invalid 401 (JObj
        [(''error'', JStr ''Authorization header is required''),
         (''hint'', JStr ''Include your Yandex Cloud API key: "Authorization: Api-Key YOUR_KEY"'')])
   \<and> validateYandexRequest (exampleYandexRequest\<lparr>headers := [''authorization'' \<mapsto> ''Bogus xyz'']\<rparr>)
     = Invalid 401 (JObj
        [(''error'', JStr ''Invalid Authorization format''),
         (''hint'', JStr ''Use format: "Api-Key YOUR_KEY" or "Bearer YOUR_IAM_TOKEN"'')])
   \<and> validateYandexRequest (exampleYandexRequest\<lparr>body := JObj [(''test'', JBool True)]\<rparr>)
     = Invalid 400 (JObj
        [(''error'', JStr ''Missing required fields''),
         (''hint'', JStr ''Request must include modelUri and messages''),
         (''received'', JArr [JStr ''test''])])
   \<and> validateYandexRequest exampleYandexRequest = Valid
   \<and> response (proxyRequest exampleRuntime (\<lambda>k. Map.empty) 0
         (exampleYandexRequest\<lparr>headers := Map.empty\<rparr>))
     = Some \<lparr>status = 401, payload = JObj
        [(''error'', JStr ''Authorization header is required''),
         (''hint'', JStr ''Include your Yandex Cloud API key: "Authorization: Api-Key YOUR_KEY"'')]\<rparr>
   \<and> calls (proxyRequest exampleRuntime (\<lambda>k. Map.empty) 0
         (exampleYandexRequest\<lparr>headers := Map.empty\<rparr>)) = []\<close>
  using
    validateYandexRequest_outcomes
      [where req = "exampleYandexRequest\<lparr>headers := Map.empty\<rparr>" and v = "[]" and kvs = "[]"
         and now = 0 and sts = "\<lambda>k. Map.empty" and rt = exampleRuntime and st = 401
         and err = \<open>JObj
        [(''error'', JStr ''Authorization header is required''),
         (''hint'', JStr ''Include your Yandex Cloud API key: "Authorization: Api-Key YOUR_KEY"'')]\<close>]
    validateYandexRequest_outcomes
      [where req = "exampleYandexRequest\<lparr>headers := [''authorization'' \<mapsto> ''Bogus xyz'']\<rparr>"
         and v = "''Bogus xyz''" and kvs = "[]"
         and now = 0 and sts = "\<lambda>k. Map.empty" and rt = exampleRuntime and st = 0 and err = JNull]
    validateYandexRequest_outcomes
      [where req = "exampleYandexRequest\<lparr>body := JObj [(''test'', JBool True)]\<rparr>"
         and v = "''Api-Key k1''" and kvs = "[(''test'', JBool True)]"
         and now = 0 and sts = "\<lambda>k. Map.empty" and rt = exampleRuntime and st = 0 and err = JNull]
    validateYandexRequest_outcomes
      [where req = exampleYandexRequest
         and v = "''Api-Key k1''"
         and kvs = "[(''modelUri'', JStr ''gpt://folder/yandexgpt-lite''),
                   (''messages'', JArr [JObj [(''role'', JStr ''user''), (''text'', JStr ''Hello'')]])]"
         and now = 0 and sts = "\<lambda>k. Map.empty" and rt = exampleRuntime and st = 0 and err = JNull]
  by (simp add: exampleYandexRequest_def startsWith_def propTruthy_def getProp_def jsTruthy_def
      rateLimit_def maxHits_def keyGenerator_def Let_def)

section \<open>Dispatch through the relay\<close>

lemma registered_key: "map_of PROVIDERS key = Some p \<Longrightarrow> key \<in> set providerKeys"
  by (auto simp: providerKeys_def dest: map_of_SomeD intro: rev_image_eqI)

lemma registered_transform:
  "map_of PROVIDERS key = Some p \<Longrightarrow>
     transformHeaders p = None \<or> transformHeaders p = Some claude_transformHeaders"
  by (auto simp: PROVIDERS_def yandex_def claude_def gemini_def groq_def mistral_def cohere_def
      split: if_splits)

lemma forwardedHeaders_no_side_headers:
  "forwardedHeaders req ''X-Target-URL'' = None"
  "forwardedHeaders req ''X-Auth-Token'' = None"
  by (simp_all add: forwardedHeaders_def Let_def)

lemma claude_transformHeaders_no_side_headers:
  "claude_transformHeaders hs ''X-Target-URL'' = hs ''X-Target-URL''"
  "claude_transformHeaders hs ''X-Auth-Token'' = hs ''X-Auth-Token''"
  by (simp_all add: claude_transformHeaders_def Let_def)

lemma buildForwardHeaders_no_side_headers:
  assumes "map_of PROVIDERS key = Some p"
  shows "buildForwardHeaders req p ''X-Target-URL'' = None"
    and "buildForwardHeaders req p ''X-Auth-Token'' = None"
  using registered_transform [OF assms]
  by (auto simp: buildForwardHeaders_def forwardedHeaders_no_side_headers
      claude_transformHeaders_no_side_headers)

lemma proxyFetch_worker:
  assumes "PROXY_CONFIGS env key = Some config" and "proxyType config = Worker"
  shows "url (proxyFetch env socks targetUrl opts key) = proxyUrl config"
    and "via (proxyFetch env socks targetUrl opts key) = None"
    and "httpMethod (options (proxyFetch env socks targetUrl opts key)) = httpMethod opts"
    and "optBody (options (proxyFetch env socks targetUrl opts key)) = optBody opts"
    and "optHeaders (options (proxyFetch env socks targetUrl opts key)) =
           (if truthy (env ''PROXY_AUTH_TOKEN'')
            then (optHeaders opts)(''X-Target-URL'' \<mapsto> targetUrl,
                                   ''X-Auth-Token'' := env ''PROXY_AUTH_TOKEN'')
            else (optHeaders opts)(''X-Target-URL'' \<mapsto> targetUrl))"
  using assms
  by (auto simp: proxyFetch_def Let_def truthy_def split: option.splits)


lemma outboundCall_worker:
  assumes reg: "map_of PROVIDERS key = Some p"
    and cfg: "resolveProxyConfig (processEnv rt) key = Some config"
    and wrk: "proxyType config = Worker"
  shows "url (outboundCall rt req p key) = proxyUrl config"
    and "via (outboundCall rt req p key) = None"
    and "optBody (options (outboundCall rt req p key)) = JSON_stringify rt (body req)"
    and "optHeaders (options (outboundCall rt req p key)) =
           (if truthy (processEnv rt ''PROXY_AUTH_TOKEN'')
            then (buildForwardHeaders req p)(''X-Target-URL'' \<mapsto> buildTargetUrl req p key,
                    ''X-Auth-Token'' := processEnv rt ''PROXY_AUTH_TOKEN'')
            else (buildForwardHeaders req p)(''X-Target-URL'' \<mapsto> buildTargetUrl req p key))"
proof -
  have c: "PROXY_CONFIGS (processEnv rt) key = Some config"
    using registered_key [OF reg] cfg by (simp add: PROXY_CONFIGS_def)
  note w = proxyFetch_worker [OF c wrk]
  show "url (outboundCall rt req p key) = proxyUrl config"
    and "via (outboundCall rt req p key) = None"
    and "optBody (options (outboundCall rt req p key)) = JSON_stringify rt (body req)"
    and "optHeaders (options (outboundCall rt req p key)) =
           (if truthy (processEnv rt ''PROXY_AUTH_TOKEN'')
            then (buildForwardHeaders req p)(''X-Target-URL'' \<mapsto> buildTargetUrl req p key,
                    ''X-Auth-Token'' := processEnv rt ''PROXY_AUTH_TOKEN'')
            else (buildForwardHeaders req p)(''X-Target-URL'' \<mapsto> buildTargetUrl req p key))"
    by (simp_all add: outboundCall_def Let_def w)
qed

text \<open>
  C8. When the transport resolved for a registered target is the relay, the call goes to
  the relay's endpoint; the composed upstream URL travels in the header X-Target-URL;
  X-Auth-Token carries the relay secret when one is configured and is absent otherwise;
  every header that the composer built is sent as well.
\<close>

theorem relay_outbound_call:
  assumes "map_of PROVIDERS key = Some p"
    and "resolveProxyConfig (processEnv rt) key = Some config"
    and "proxyType config = Worker"
  shows "url (outboundCall rt req p key) = proxyUrl config
       \<and> optHeaders (options (outboundCall rt req p key)) ''X-Target-URL''
           = Some (buildTargetUrl req p key)
       \<and> optHeaders (options (outboundCall rt req p key)) ''X-Auth-Token''
           = (if truthy (processEnv rt ''PROXY_AUTH_TOKEN'')
              then processEnv rt ''PROXY_AUTH_TOKEN'' else None)
       \<and> (buildForwardHeaders req p k = Some v \<longrightarrow>
            optHeaders (options (outboundCall rt req p key)) k = Some v)"
proof -
  note w = outboundCall_worker [OF assms]
  note n = buildForwardHeaders_no_side_headers [OF assms(1)]
  have "buildForwardHeaders req p k = Some v \<Longrightarrow>
          k \<noteq> ''X-Target-URL'' \<and> k \<noteq> ''X-Auth-Token''"
    using n [of req] by auto
  then show ?thesis
    by (auto simp: w n)
qed

theorem relay_outbound_call_witness:
  "url (outboundCall relayRuntime exampleClaudeRequest claude ''claude'')
     = ''https://relay.example.workers.dev''
   \<and> optHeaders (options (outboundCall relayRuntime exampleClaudeRequest claude ''claude''))
        ''X-Target-URL'' = Some ''https://api.anthropic.com/v1/messages''
   \<and> optHeaders (options (outboundCall relayRuntime exampleClaudeRequest claude ''claude''))
        ''X-Auth-Token'' = Some ''s3cret''
   \<and> optHeaders (options (outboundCall relayRuntime exampleClaudeRequest claude ''claude''))
        ''x-api-key'' = Some ''sk-123''"
proof -
  have reg: "map_of PROVIDERS ''claude'' = Some claude"
    by (simp add: PROVIDERS_def)
  have cfg: "resolveProxyConfig (processEnv relayRuntime) ''claude''
               = Some \<lparr>proxyType = Worker, proxyUrl = ''https://relay.example.workers.dev''\<rparr>"
    by (simp add: relayRuntime_def exampleRuntime_def relayOverrideEnv_def
        resolveProxyConfig_def upper_claude trimmed_def trim_def isWhiteSpace_def
        schemeConfig_def startsWith_def slice_def)
  have wrk: "proxyType \<lparr>proxyType = Worker, proxyUrl = ''https://relay.example.workers.dev''\<rparr>
               = Worker"
    by simp
  have tok: "processEnv relayRuntime ''PROXY_AUTH_TOKEN'' = Some ''s3cret''"
    by (simp add: relayRuntime_def exampleRuntime_def relayOverrideEnv_def)
  have key: "buildForwardHeaders exampleClaudeRequest claude ''x-api-key'' = Some ''sk-123''"
    by (simp add: buildForwardHeaders_def claude_def forwardedHeaders_def
        claude_transformHeaders_def exampleClaudeRequest_def truthy_def orElse_def
        startsWith_def slice_def Let_def)
  have tgt: "buildTargetUrl exampleClaudeRequest claude ''claude''
               = ''https://api.anthropic.com/v1/messages''"
    by (simp add: buildTargetUrl_def claude_def exampleClaudeRequest_def slice_def
        stripTrailingSlash_def)
  show ?thesis
    using relay_outbound_call [OF reg cfg wrk, of exampleClaudeRequest "''x-api-key''" "''sk-123''"]
    by (simp add: tok key tgt truthy_def)
qed

section \<open>Classification of failures\<close>

lemma handleProxyError_kind:
  "handleProxyError e p
     = \<lparr>status = kindStatus (failureKind e), payload = kindPayload (failureKind e) (name p)\<rparr>"
  by (simp add: handleProxyError_def failureKind_def kindStatus_def kindPayload_def)

lemma forward_valid:
  assumes "passesValidation p req"
  shows "forward rt req p key =
     (case fetch rt (outboundCall rt req p key) of
        Inl error \<Rightarrow> (handleProxyError error p, [outboundCall rt req p key])
      | Inr resp \<Rightarrow>
          (case decodeResponse rt resp of
             Inl error \<Rightarrow> (handleProxyError error p, [outboundCall rt req p key])
           | Inr data \<Rightarrow> (\<lparr>status = upstreamStatus resp, payload = data\<rparr>,
                          [outboundCall rt req p key])))"
  using assms
  by (auto simp: forward_def passesValidation_def Let_def split: option.splits)

lemma forward_thrown:
  assumes "passesValidation p req"
    and "fetch rt (outboundCall rt req p key) = Inl e
         \<or> (\<exists>resp. fetch rt (outboundCall rt req p key) = Inr resp
                   \<and> decodeResponse rt resp = Inl e)"
  shows "forward rt req p key = (handleProxyError e p, [outboundCall rt req p key])"
  using assms(2) by (auto simp: forward_valid [OF assms(1)])

text \<open>
  C5. A failure thrown while dispatching (by the fetch call, or while reading and
  decoding the response) is answered with the response of its kind: 504 for an abort or
  a timeout, 502 for a refused connection (with its own message when the proxy is
  mentioned) or a failed fetch, 500 otherwise. The response is made of the kind and the
  name of the provider alone, so nothing of the error itself reaches the client.
\<close>

theorem dispatch_failure_classified:
  assumes "map_of PROVIDERS (params_provider req) = Some p"
    and "\<not> snd (rateLimit now (keyGenerator (params_provider req) req) (sts (params_provider req)))"
    and "passesValidation p req"
    and "fetch rt (outboundCall rt req p (params_provider req)) = Inl e
         \<or> (\<exists>resp. fetch rt (outboundCall rt req p (params_provider req)) = Inr resp
                   \<and> decodeResponse rt resp = Inl e)"
  shows "response (proxyRequest rt sts now req)
           = Some \<lparr>status = kindStatus (failureKind e),
                   payload = kindPayload (failureKind e) (name p)\<rparr>
       \<and> kindStatus (failureKind e) =
           (if errorName e = ''AbortError'' \<or> includesStr (errorMessage e) ''timeout'' then 504
            else if includesStr (errorMessage e) ''ECONNREFUSED''
                    \<or> includesStr (errorMessage e) ''fetch failed'' then 502
            else 500)"
proof -
  have "response (proxyRequest rt sts now req) = Some (handleProxyError e p)"
    using proxyRequest_not_limited(1) [where req=req and p=p and now=now and sts=sts and rt=rt]
      assms(1,2) forward_thrown [OF assms(3,4)]
    by simp
  then show ?thesis
    by (simp add: handleProxyError_kind failureKind_def kindStatus_def)
qed


lemma registered_claude: "map_of PROVIDERS ''claude'' = Some claude"
  by (simp add: PROVIDERS_def)

lemma first_request_passes:
  "\<not> snd (rateLimit now k Map.empty)"
  by (simp add: rateLimit_def maxHits_def Let_def)

lemma claude_passesValidation: "passesValidation claude req"
  by (simp add: passesValidation_def claude_def)

theorem dispatch_failure_classified_witness:
  "response (proxyRequest (exampleRuntime\<lparr>fetch := \<lambda>c. Inl abortError\<rparr>) (\<lambda>k. Map.empty) 0
       exampleClaudeRequest)
     = Some \<lparr>status = 504, payload = JObj
         [(''error'', JStr ''Gateway Timeout''),
          (''message'', JStr ''Request to Anthropic Claude API timed out''),
          (''hint'', JStr ''Try again or check the provider status'')]\<rparr>
   \<and> response (proxyRequest (exampleRuntime\<lparr>fetch := \<lambda>c. Inl fetchFailed\<rparr>) (\<lambda>k. Map.empty) 0
       exampleClaudeRequest)
     = Some \<lparr>status = 502, payload = JObj
         [(''error'', JStr ''Bad Gateway''),
          (''message'', JStr ''Unable to connect to Anthropic Claude API''),
          (''hint'', JStr ''Anthropic Claude may be temporarily unavailable'')]\<rparr>"
proof -
  have k: "params_provider exampleClaudeRequest = ''claude''"
    by (simp add: exampleClaudeRequest_def)
  have r: "map_of PROVIDERS (params_provider exampleClaudeRequest) = Some claude"
    by (simp add: k registered_claude)
  have l: "\<not> snd (rateLimit 0 (keyGenerator (params_provider exampleClaudeRequest)
              exampleClaudeRequest) ((\<lambda>k. Map.empty) (params_provider exampleClaudeRequest)))"
    by (rule first_request_passes)
  have a: "failureKind abortError = GatewayTimeout"
    by (simp add: failureKind_def abortError_def)
  have f: "failureKind fetchFailed = BadGateway"
    by (simp add: failureKind_def fetchFailed_def startsWith_def)
  have n: "name claude = ''Anthropic Claude''"
    by (simp add: claude_def)
  show ?thesis
    using dispatch_failure_classified
        [where rt = "exampleRuntime\<lparr>fetch := \<lambda>c. Inl abortError\<rparr>" and e = abortError,
         OF r l claude_passesValidation]
      dispatch_failure_classified
        [where rt = "exampleRuntime\<lparr>fetch := \<lambda>c. Inl fetchFailed\<rparr>" and e = fetchFailed,
         OF r l claude_passesValidation]
    by (simp add: a f n kindStatus_def kindPayload_def)
qed

section \<open>Decoding the upstream response\<close>

lemma decodeResponse_declared_json:
  assumes "includesStr (orElse (contentType resp) []) ''application/json''"
    and "bodyText resp = Inr text" and "JSON_parse rt text = Inl e"
  shows "decodeResponse rt resp = Inl e"
  using assms by (simp add: decodeResponse_def Let_def)

lemma decodeResponse_fallback:
  assumes "\<not> includesStr (orElse (contentType resp) []) ''application/json''"
    and "bodyText resp = Inr text" and "JSON_parse rt text = Inl e"
  shows "decodeResponse rt resp = Inr (JObj
           [(''error'', JStr ''Non-JSON response from provider''),
            (''status'', JNum (real (upstreamStatus resp))),
            (''body'', JStr (take 500 text))])"
  using assms by (simp add: decodeResponse_def Let_def slice2_def)

lemma notJson_decode:
  "decodeResponse exampleRuntime notJsonResponse
     = Inl \<lparr>errorName = ''SyntaxError'', errorMessage = ''Unexpected token in JSON at position 0''\<rparr>"
  by (simp add: decodeResponse_def notJsonResponse_def exampleRuntime_def orElse_def
      startsWith_def Let_def)

text \<open>
  C6 fails where the upstream declares JSON and sends something else: the upstream
  answers 502 with the text \<open>Bad Gateway\<close> under the content type application/json, and
  the client receives 500 with the generic internal error instead of 502 with the
  diagnostic envelope.
\<close>

theorem declared_json_decode_failure:
  "response (proxyRequest (exampleRuntime\<lparr>fetch := \<lambda>c. Inr notJsonResponse\<rparr>) (\<lambda>k. Map.empty) 0
       exampleClaudeRequest)
     = Some \<lparr>status = 500, payload = JObj
         [(''error'', JStr ''Internal Proxy Error''),
          (''message'', JStr ''An unexpected error occurred''),
          (''hint'', JStr ''Contact proxy administrator if this persists'')]\<rparr>
   \<and> upstreamStatus notJsonResponse = 502"
proof -
  have k: "params_provider exampleClaudeRequest = ''claude''"
    by (simp add: exampleClaudeRequest_def)
  have r: "map_of PROVIDERS (params_provider exampleClaudeRequest) = Some claude"
    by (simp add: k registered_claude)
  have l: "\<not> snd (rateLimit 0 (keyGenerator (params_provider exampleClaudeRequest)
              exampleClaudeRequest) ((\<lambda>k. Map.empty) (params_provider exampleClaudeRequest)))"
    by (rule first_request_passes)
  have d: "decodeResponse (exampleRuntime\<lparr>fetch := \<lambda>c. Inr notJsonResponse\<rparr>) notJsonResponse
     = Inl \<lparr>errorName = ''SyntaxError'', errorMessage = ''Unexpected token in JSON at position 0''\<rparr>"
    by (simp add: decodeResponse_def notJsonResponse_def exampleRuntime_def orElse_def
      startsWith_def Let_def)
  have f: "forward (exampleRuntime\<lparr>fetch := \<lambda>c. Inr notJsonResponse\<rparr>) exampleClaudeRequest
             claude ''claude''
           = (handleProxyError \<lparr>errorName = ''SyntaxError'',
                 errorMessage = ''Unexpected token in JSON at position 0''\<rparr> claude,
              [outboundCall (exampleRuntime\<lparr>fetch := \<lambda>c. Inr notJsonResponse\<rparr>)
                 exampleClaudeRequest claude ''claude''])"
    by (simp add: forward_valid [OF claude_passesValidation] d)
  have h: "handleProxyError \<lparr>errorName = ''SyntaxError'',
                 errorMessage = ''Unexpected token in JSON at position 0''\<rparr> claude
           = \<lparr>status = 500, payload = JObj
         [(''error'', JStr ''Internal Proxy Error''),
          (''message'', JStr ''An unexpected error occurred''),
          (''hint'', JStr ''Contact proxy administrator if this persists'')]\<rparr>"
    by (simp add: handleProxyError_def startsWith_def)
  have u: "upstreamStatus notJsonResponse = 502"
    by (simp add: notJsonResponse_def)
  show ?thesis
    using proxyRequest_not_limited(1)
        [where rt = "exampleRuntime\<lparr>fetch := \<lambda>c. Inr notJsonResponse\<rparr>", OF r l]
    by (simp add: k f h u)
qed

section \<open>The request body\<close>

lemma stringify_example:
  \<open>JSON_stringify exampleRuntime (body exampleClaudeRequest) = ''{"a":1}''\<close>
  by (simp add: exampleRuntime_def exampleClaudeRequest_def)

lemma proxyFetch_body:
  "optBody (options (proxyFetch env socks t opts key)) = optBody opts"
  "httpMethod (options (proxyFetch env socks t opts key)) = httpMethod opts"
  by (simp_all add: proxyFetch_def Let_def split: option.splits)

lemma outboundCall_body:
  "optBody (options (outboundCall rt req p key)) = JSON_stringify rt (body req)"
  "httpMethod (options (outboundCall rt req p key)) = ''POST''"
  by (simp_all add: outboundCall_def Let_def proxyFetch_body)

lemma forward_calls:
  "passesValidation p req \<Longrightarrow> snd (forward rt req p key) = [outboundCall rt req p key]"
  by (simp add: forward_valid split: sum.splits)

text \<open>
  C9, amended. A request that reaches the dispatch makes one outbound call, by POST,
  whose body is what the runtime's \<^verbatim>\<open>JSON.stringify\<close> makes of the parsed request body, on
  every transport, the relay included.
\<close>

theorem outbound_body_reserialised:
  assumes "map_of PROVIDERS (params_provider req) = Some p"
    and "\<not> snd (rateLimit now (keyGenerator (params_provider req) req) (sts (params_provider req)))"
    and "passesValidation p req"
  shows "calls (proxyRequest rt sts now req) = [outboundCall rt req p (params_provider req)]
       \<and> optBody (options (outboundCall rt req p (params_provider req)))
           = JSON_stringify rt (body req)
       \<and> httpMethod (options (outboundCall rt req p (params_provider req))) = ''POST''"
  using proxyRequest_not_limited(2) [where req=req and p=p and now=now and sts=sts and rt=rt]
    assms forward_calls [of p req rt "params_provider req"]
  by (simp add: outboundCall_body)

theorem outbound_body_reserialised_witness:
  \<open>calls (proxyRequest exampleRuntime (\<lambda>k. Map.empty) 0 exampleClaudeRequest)
     = [outboundCall exampleRuntime exampleClaudeRequest claude ''claude'']
   \<and> optBody (options (outboundCall exampleRuntime exampleClaudeRequest claude ''claude''))
     = ''{"a":1}''\<close>
proof -
  have k: "params_provider exampleClaudeRequest = ''claude''"
    by (simp add: exampleClaudeRequest_def)
  have r: "map_of PROVIDERS (params_provider exampleClaudeRequest) = Some claude"
    by (simp add: k registered_claude)
  have l: "\<not> snd (rateLimit 0 (keyGenerator (params_provider exampleClaudeRequest)
              exampleClaudeRequest) ((\<lambda>k. Map.empty) (params_provider exampleClaudeRequest)))"
    by (rule first_request_passes)
  show ?thesis
    using outbound_body_reserialised [where rt = exampleRuntime, OF r l claude_passesValidation]
    by (simp add: k stringify_example)
qed

text \<open>
  C9, as the specification words it, fails: the bytes sent are not the bytes received.
  The body \<open>{ "a": 1 }\<close>, which the body parser reads as the object with the one
  member \<open>a\<close>, leaves as \<open>{"a":1}\<close>.
\<close>

theorem outbound_body_not_raw:
  \<open>length (calls (proxyRequest exampleRuntime (\<lambda>k. Map.empty) 0 exampleClaudeRequest)) = 1
   \<and> optBody (options (hd (calls (proxyRequest exampleRuntime (\<lambda>k. Map.empty) 0
         exampleClaudeRequest)))) = ''{"a":1}''
   \<and> rawBody exampleClaudeRequest = ''{ "a": 1 }''
   \<and> body exampleClaudeRequest = JObj [(''a'', JNum 1)]
   \<and> optBody (options (hd (calls (proxyRequest exampleRuntime (\<lambda>k. Map.empty) 0
         exampleClaudeRequest)))) \<noteq> rawBody exampleClaudeRequest\<close>
proof -
  have k: "params_provider exampleClaudeRequest = ''claude''"
    by (simp add: exampleClaudeRequest_def)
  have r: "map_of PROVIDERS (params_provider exampleClaudeRequest) = Some claude"
    by (simp add: k registered_claude)
  have l: "\<not> snd (rateLimit 0 (keyGenerator (params_provider exampleClaudeRequest)
              exampleClaudeRequest) ((\<lambda>k. Map.empty) (params_provider exampleClaudeRequest)))"
    by (rule first_request_passes)
  have raw: \<open>rawBody exampleClaudeRequest = ''{ "a": 1 }''\<close>
    by (simp add: exampleClaudeRequest_def)
  have c: "calls (proxyRequest exampleRuntime (\<lambda>k. Map.empty) 0 exampleClaudeRequest)
             = [outboundCall exampleRuntime exampleClaudeRequest claude ''claude'']"
    using proxyRequest_not_limited(2) [where rt = exampleRuntime, OF r l]
      forward_calls [OF claude_passesValidation, where req = exampleClaudeRequest
        and rt = exampleRuntime and key = "''claude''"]
    by (simp add: k)
  have bd: "body exampleClaudeRequest = JObj [(''a'', JNum 1)]"
    by (simp add: exampleClaudeRequest_def)
  show ?thesis
    by (simp add: c raw outboundCall_body stringify_example) (rule bd)
qed

section \<open>The rate limit\<close>

lemma keyGenerator_inj:
  "keyGenerator key r1 = keyGenerator key r2 \<longleftrightarrow> ip r1 = ip r2"
  by (simp add: keyGenerator_def)






















section \<open>A target written with a percent escape\<close>

lemma outboundCall_direct:
  "PROXY_CONFIGS (processEnv rt) key = None \<Longrightarrow>
     url (outboundCall rt req p key) = buildTargetUrl req p key"
  by (simp add: outboundCall_def proxyFetch_def PROXY_DISPATCHERS_def
      createProxyDispatcher_def Let_def)

lemma example_direct: "PROXY_CONFIGS (processEnv exampleRuntime) key = None"
  by (simp add: PROXY_CONFIGS_def exampleRuntime_def resolveProxyConfig_def trimmed_def)

text \<open>
  C1 fails where the target is written with a percent escape. The router serves
  \<^verbatim>\<open>POST /api/%63laude/messages?x=1\<close> as a request to \<open>claude\<close>; the remainder of the URL
  after its \<^verbatim>\<open>/api/{target}\<close> prefix is \<^verbatim>\<open>/messages?x=1\<close>, and the URL composed is not
  the base followed by it: the prefix is cut by the length of the decoded identifier, two
  characters short.
\<close>

theorem buildTargetUrl_encoded_target:
  "originalUrl encodedClaudeRequest = ''/api/%63laude/messages?x=1''
   \<and> params_provider encodedClaudeRequest = ''claude''
   \<and> buildTargetUrl encodedClaudeRequest claude ''claude''
       = ''https://api.anthropic.com/v1de/messages?x=1''
   \<and> map url (calls (proxyRequest exampleRuntime (\<lambda>k. Map.empty) 0 encodedClaudeRequest))
       = [''https://api.anthropic.com/v1de/messages?x=1'']"
proof -
  have o: "originalUrl encodedClaudeRequest = ''/api/%63laude/messages?x=1''"
    and k: "params_provider encodedClaudeRequest = ''claude''"
    by (simp_all add: encodedClaudeRequest_def exampleClaudeRequest_def)
  have b: "buildTargetUrl encodedClaudeRequest claude ''claude''
             = ''https://api.anthropic.com/v1de/messages?x=1''"
    by (simp add: buildTargetUrl_def o claude_def slice_def stripTrailingSlash_def)
  have r: "map_of PROVIDERS (params_provider encodedClaudeRequest) = Some claude"
    by (simp add: k registered_claude)
  have l: "\<not> snd (rateLimit 0 (keyGenerator (params_provider encodedClaudeRequest)
              encodedClaudeRequest) ((\<lambda>k. Map.empty) (params_provider encodedClaudeRequest)))"
    by (rule first_request_passes)
  have c: "calls (proxyRequest exampleRuntime (\<lambda>k. Map.empty) 0 encodedClaudeRequest)
             = [outboundCall exampleRuntime encodedClaudeRequest claude ''claude'']"
    using proxyRequest_not_limited(2) [where rt = exampleRuntime, OF r l]
      forward_calls [OF claude_passesValidation, where req = encodedClaudeRequest
        and rt = exampleRuntime and key = "''claude''"]
    by (simp add: k)
  show ?thesis
    by (simp add: o k b c outboundCall_direct [OF example_direct])
qed

end
